theory Spec2Isabelle
  imports Complex_Main
begin

section \<open>Python values and builtins used by \<open>src/Reviews/app.py\<close>\<close>

text \<open>
  The program is three functions and a button handler over the values that
  \<open>requests\<close>' \<open>Response.json()\<close> returns. A Python \<open>str\<close> is modelled as a
  \<open>string\<close> whose characters are the code points 0..255 (Latin-1); on that range the
  character classes used below (\<open>str.isspace\<close>, \<open>str.isprintable\<close>, decimal
  digits) are the ones of CPython. JSON numbers with a fraction or an exponent (Python
  \<open>float\<close>) are not part of the value type. CPython's optional limit on the number
  of digits in \<open>int\<close>/\<open>str\<close> conversions (4300 by default since 3.11) is not
  modelled; statements about numerals stay below it.
\<close>

datatype py_error =
    ConnectionError | HTTPError | JSONDecodeError
  | AttributeError | TypeError | KeyError | IndexError | ValueError
  | APIError

text \<open>A decoded JSON value; \<open>JNull\<close> is Python's \<open>None\<close>. \<open>JObj\<close> holds a dict's
  items in insertion order.\<close>

datatype json =
    JNull
  | JBool bool
  | JInt int
  | JStr string
  | JArr "json list"
  | JObj "(string \<times> json) list"

definition then_do :: "py_error + 'a \<Rightarrow> ('a \<Rightarrow> py_error + 'b) \<Rightarrow> py_error + 'b" where
  "then_do r f = (case r of Inl e \<Rightarrow> Inl e | Inr x \<Rightarrow> f x)"

subsection \<open>Attribute and item access\<close>

text \<open>\<open>v.get(k, d)\<close>: only a dict has the method.\<close>

fun py_get :: "json \<Rightarrow> string \<Rightarrow> json \<Rightarrow> py_error + json" where
  "py_get (JObj d) k dflt = Inr (case map_of d k of None \<Rightarrow> dflt | Some v \<Rightarrow> v)"
| "py_get _ k dflt = Inl AttributeError"

text \<open>\<open>v[k]\<close> with a string key \<open>k\<close>.\<close>

fun py_getitem :: "json \<Rightarrow> string \<Rightarrow> py_error + json" where
  "py_getitem (JObj d) k = (case map_of d k of None \<Rightarrow> Inl KeyError | Some v \<Rightarrow> Inr v)"
| "py_getitem _ k = Inl TypeError"

text \<open>\<open>v[0]\<close>.\<close>

fun py_first :: "json \<Rightarrow> py_error + json" where
  "py_first (JArr []) = Inl IndexError"
| "py_first (JArr (x # xs)) = Inr x"
| "py_first (JStr []) = Inl IndexError"
| "py_first (JStr (c # cs)) = Inr (JStr [c])"
| "py_first (JObj d) = Inl KeyError"
| "py_first _ = Inl TypeError"

text \<open>Truth value of \<open>v\<close> (\<open>if not v\<close>).\<close>

fun truthy :: "json \<Rightarrow> bool" where
  "truthy JNull = False"
| "truthy (JBool b) = b"
| "truthy (JInt n) = (n \<noteq> 0)"
| "truthy (JStr s) = (s \<noteq> [])"
| "truthy (JArr xs) = (xs \<noteq> [])"
| "truthy (JObj d) = (d \<noteq> [])"

text \<open>\<open>xs[1:stop]\<close> on a sequence: a negative \<open>stop\<close> counts from the end, and both
  ends are clamped to the length.\<close>

definition slice_from1 :: "'a list \<Rightarrow> int \<Rightarrow> 'a list" where
  "slice_from1 xs stop =
     (let n = int (length xs);
          stop' = (if stop < 0 then max 0 (stop + n) else min stop n)
      in take (nat stop' - 1) (drop 1 xs))"

text \<open>\<open>v[1:stop]\<close>, given as the items a \<open>for\<close> loop over the slice visits: the
  elements of a list, the one-character strings of a string.\<close>

fun py_slice_from1 :: "json \<Rightarrow> int \<Rightarrow> py_error + json list" where
  "py_slice_from1 (JArr xs) stop = Inr (slice_from1 xs stop)"
| "py_slice_from1 (JStr s) stop = Inr (map (\<lambda>c. JStr [c]) (slice_from1 s stop))"
| "py_slice_from1 _ stop = Inl TypeError"

text \<open>Python before 3.12 raises \<open>TypeError\<close> for a slice of a dict (a slice is not
  hashable); from 3.12 on the same expression raises \<open>KeyError\<close>. The model takes the
  former; nothing below depends on which.\<close>

subsection \<open>\<open>str\<close>, \<open>repr\<close> and \<open>int\<close>\<close>

definition digit_char :: "nat \<Rightarrow> char" where
  "digit_char d = char_of (48 + d)"

fun str_nat :: "nat \<Rightarrow> string" where
  "str_nat n = (if n < 10 then [digit_char n] else str_nat (n div 10) @ [digit_char (n mod 10)])"

declare str_nat.simps [simp del]

definition str_int :: "int \<Rightarrow> string" where
  "str_int i = (if i < 0 then CHR ''-'' # str_nat (nat (- i)) else str_nat (nat i))"

definition py_join :: "string \<Rightarrow> string list \<Rightarrow> string" where
  "py_join sep xs = concat (case xs of [] \<Rightarrow> [] | y # ys \<Rightarrow> y # map (\<lambda>z. sep @ z) ys)"

definition py_isprintable :: "char \<Rightarrow> bool" where
  "py_isprintable c = (let n = (of_char c :: nat) in (32 \<le> n \<and> n < 127) \<or> (161 \<le> n \<and> n \<noteq> 173))"

definition hex_digit :: "nat \<Rightarrow> char" where
  "hex_digit d = (if d < 10 then char_of (48 + d) else char_of (87 + d))"

definition repr_char :: "char \<Rightarrow> char \<Rightarrow> string" where
  "repr_char q c =
     (if c = q \<or> c = CHR 0x5C then [CHR 0x5C, c]
      else if c = CHR 0x09 then [CHR 0x5C, CHR ''t'']
      else if c = CHR 0x0A then [CHR 0x5C, CHR ''n'']
      else if c = CHR 0x0D then [CHR 0x5C, CHR ''r'']
      else if \<not> py_isprintable c
        then [CHR 0x5C, CHR ''x'', hex_digit (of_char c div 16), hex_digit (of_char c mod 16)]
      else [c])"

definition repr_str :: "string \<Rightarrow> string" where
  "repr_str s =
     (let q = (if CHR 0x27 \<in> set s \<and> CHR 0x22 \<notin> set s then CHR 0x22 else CHR 0x27)
      in q # concat (map (repr_char q) s) @ [q])"

fun py_repr :: "json \<Rightarrow> string" where
  "py_repr JNull = ''None''"
| "py_repr (JBool b) = (if b then ''True'' else ''False'')"
| "py_repr (JInt n) = str_int n"
| "py_repr (JStr s) = repr_str s"
| "py_repr (JArr xs) = ''['' @ py_join '', '' (map py_repr xs) @ '']''"
| "py_repr (JObj d) =
     ''{'' @ py_join '', '' (map (\<lambda>(k, v). repr_str k @ '': '' @ py_repr v) d) @ ''}''"

text \<open>\<open>str(v)\<close>, which is also what an f-string field \<open>{v}\<close> inserts.\<close>

definition py_str :: "json \<Rightarrow> string" where
  "py_str v = (case v of JStr s \<Rightarrow> s | _ \<Rightarrow> py_repr v)"

definition py_isspace :: "char \<Rightarrow> bool" where
  "py_isspace c =
     (let n = (of_char c :: nat)
      in (9 \<le> n \<and> n \<le> 13) \<or> (28 \<le> n \<and> n \<le> 32) \<or> n = 133 \<or> n = 160)"

definition strip_by :: "(char \<Rightarrow> bool) \<Rightarrow> string \<Rightarrow> string" where
  "strip_by P s = rev (dropWhile P (rev (dropWhile P s)))"

text \<open>\<open>s.strip()\<close>.\<close>

definition py_strip :: "string \<Rightarrow> string" where
  "py_strip s = strip_by py_isspace s"

text \<open>The whitespace that \<open>int\<close> skips around a literal: C's \<open>isspace\<close> below 127,
  \<open>str.isspace\<close> above. The separators 28 to 31 are \<open>str.isspace\<close> but are not
  skipped.\<close>

definition int_isspace :: "char \<Rightarrow> bool" where
  "int_isspace c =
     (let n = (of_char c :: nat)
      in (9 \<le> n \<and> n \<le> 13) \<or> n = 32 \<or> n = 133 \<or> n = 160)"

definition is_digit :: "char \<Rightarrow> bool" where
  "is_digit c = (let n = (of_char c :: nat) in 48 \<le> n \<and> n \<le> 57)"

definition digit_val :: "char \<Rightarrow> int" where
  "digit_val c = int (of_char c) - 48"

text \<open>The digits of a base-10 literal: at least one digit, single underscores only
  between digits.\<close>

fun digits_ok :: "string \<Rightarrow> bool" where
  "digits_ok [] = False"
| "digits_ok [c] = is_digit c"
| "digits_ok (c # d # r) =
     (is_digit c \<and> (if d = CHR ''_'' then digits_ok r else digits_ok (d # r)))"

definition dec_value :: "string \<Rightarrow> int" where
  "dec_value s = foldl (\<lambda>a c. 10 * a + digit_val c) 0 (filter (\<lambda>c. c \<noteq> CHR ''_'') s)"

text \<open>\<open>int(s)\<close> for a string: surrounding whitespace is dropped, one sign is allowed
  directly before the digits, anything else than a decimal literal raises
  \<open>ValueError\<close>.\<close>

definition int_of_str :: "string \<Rightarrow> py_error + int" where
  "int_of_str s =
     (let t = strip_by int_isspace s;
          (sgn, ds) = (case t of
                         [] \<Rightarrow> (1, [])
                       | c # r \<Rightarrow> if c = CHR ''-'' then (- 1, r)
                                  else if c = CHR ''+'' then (1, r) else (1, t))
      in if digits_ok ds then Inr (sgn * dec_value ds) else Inl ValueError)"

fun py_int :: "json \<Rightarrow> py_error + int" where
  "py_int (JInt n) = Inr n"
| "py_int (JBool b) = Inr (if b then 1 else 0)"
| "py_int (JStr s) = int_of_str s"
| "py_int _ = Inl TypeError"

section \<open>The outside world\<close>

text \<open>
  What \<open>requests.get\<close> gives back: a transport failure (an exception of
  \<open>requests\<close>), or a response with its status code and its body decoded as JSON
  (\<open>None\<close> when the body is not JSON, so that \<open>.json()\<close> raises).
\<close>

datatype http_outcome = TransportFault | Response nat "json option"

datatype chat_message = Message (role: string) (msg_content: string)

record chat_request =
  model :: string
  messages :: "chat_message list"
  temperature :: real
  max_tokens :: int

text \<open>What \<open>openai.ChatCompletion.create\<close> gives back: an API failure, or a response
  whose \<open>choices\<close> are given by their \<open>message.content\<close> (\<open>None\<close> when null).\<close>

datatype chat_outcome = ChatFault | ChatChoices "string option list"

record world =
  http_get :: "string \<Rightarrow> (string \<times> json) list \<Rightarrow> http_outcome"
  chat_create :: "chat_request \<Rightarrow> chat_outcome"

text \<open>The two section headings of the page begin with an emoji, outside Latin-1; they
  are kept as names: \<open>ThemesHeading\<close> is "Themes & Sentiment Summary",
  \<open>ImprovementsHeading\<close> is "Recommended Improvements".\<close>

datatype heading = ThemesHeading | ImprovementsHeading

text \<open>Everything a run does to the outside, in order.\<close>

datatype event =
    HttpGet string "(string \<times> json) list"
  | ChatCreate chat_request
  | Spinner string
  | StError string
  | StSuccess string
  | StWrite string
  | StSubheader heading
  | StMarkdown string

definition raise_for_status :: "nat \<Rightarrow> py_error + unit" where
  "raise_for_status st = (if 400 \<le> st \<and> st < 600 then Inl HTTPError else Inr ())"

definition response_json :: "json option \<Rightarrow> py_error + json" where
  "response_json body = (case body of None \<Rightarrow> Inl JSONDecodeError | Some j \<Rightarrow> Inr j)"

section \<open>Application lookup: \<open>search_app\<close>\<close>

definition search_url :: string where
  "search_url = ''https://itunes.apple.com/search''"

definition search_params :: "string \<Rightarrow> (string \<times> json) list" where
  "search_params app_name =
     [(''term'', JStr app_name), (''entity'', JStr ''software''), (''limit'', JInt 1)]"

text \<open>Lines 20 to 26, on the outcome of the GET: a transport failure and a status of
  400 to 599 raise, as \<open>requests.get\<close> and \<open>raise_for_status\<close> do. The identifier is \<open>None\<close> or a
  \<open>str\<close>; the name is whatever \<open>app.get("trackName")\<close> is.\<close>

definition search_app_result :: "http_outcome \<Rightarrow> py_error + (string option \<times> json)" where
  "search_app_result out =
     (case out of
        TransportFault \<Rightarrow> Inl ConnectionError
      | Response st body \<Rightarrow>
          then_do (raise_for_status st) (\<lambda>_.
          then_do (response_json body) (\<lambda>j.
          then_do (py_get j ''results'' (JArr [])) (\<lambda>results.
            if \<not> truthy results then Inr (None, JNull)
            else
              then_do (py_first results) (\<lambda>app.
              then_do (py_get app ''trackId'' JNull) (\<lambda>track_id.
              then_do (py_get app ''trackName'' JNull) (\<lambda>track_name.
                Inr (Some (py_str track_id), track_name))))))))"

definition search_app :: "world \<Rightarrow> string \<Rightarrow> event list \<times> (py_error + (string option \<times> json))" where
  "search_app w app_name =
     ([HttpGet search_url (search_params app_name)],
      search_app_result (http_get w search_url (search_params app_name)))"

section \<open>Review fetch: \<open>fetch_reviews\<close>\<close>

text \<open>The dict appended at line 37. Its \<open>title\<close> and \<open>content\<close> are whatever the
  entry's labels hold, strings in a well-formed feed; its \<open>rating\<close> is the result of
  \<open>int\<close>.\<close>

record review =
  title :: json
  content :: json
  rating :: int

definition rss_url :: "string \<Rightarrow> string \<Rightarrow> string" where
  "rss_url country app_id =
     ''https://itunes.apple.com/'' @ country @ ''/rss/customerreviews/id='' @ app_id
       @ ''/sortBy=mostRecent/json''"

text \<open>The dict built at lines 37 to 41, its three values evaluated in order.\<close>

definition review_of_entry :: "json \<Rightarrow> py_error + review" where
  "review_of_entry e =
     then_do (py_getitem e ''title'') (\<lambda>t.
     then_do (py_getitem t ''label'') (\<lambda>title_label.
     then_do (py_getitem e ''content'') (\<lambda>c.
     then_do (py_getitem c ''label'') (\<lambda>content_label.
     then_do (py_get e ''im:rating'' (JObj [])) (\<lambda>r.
     then_do (py_get r ''label'' (JInt 0)) (\<lambda>rating_label.
     then_do (py_int rating_label) (\<lambda>n.
       Inr \<lparr>title = title_label, content = content_label, rating = n\<rparr>)))))))"

text \<open>The loop of lines 35 to 42: \<open>reviews\<close> grows by one record per entry, and the
  first entry that raises ends the call.\<close>

fun collect_reviews :: "json list \<Rightarrow> review list \<Rightarrow> py_error + review list" where
  "collect_reviews [] reviews = Inr reviews"
| "collect_reviews (e # es) reviews =
     (case review_of_entry e of
        Inl err \<Rightarrow> Inl err
      | Inr r \<Rightarrow> collect_reviews es (reviews @ [r]))"

definition fetch_reviews_result :: "http_outcome \<Rightarrow> int \<Rightarrow> py_error + review list" where
  "fetch_reviews_result out limit =
     (case out of
        TransportFault \<Rightarrow> Inl ConnectionError
      | Response st body \<Rightarrow>
          then_do (raise_for_status st) (\<lambda>_.
          then_do (response_json body) (\<lambda>j.
          then_do (py_get j ''feed'' (JObj [])) (\<lambda>feed.
          then_do (py_get feed ''entry'' (JArr [])) (\<lambda>entry.
          then_do (py_slice_from1 entry (limit + 1)) (\<lambda>entries.
            collect_reviews entries []))))))"

definition fetch_reviews ::
  "world \<Rightarrow> string \<Rightarrow> string \<Rightarrow> int \<Rightarrow> event list \<times> (py_error + review list)" where
  "fetch_reviews w app_id country limit =
     ([HttpGet (rss_url country app_id) []],
      fetch_reviews_result (http_get w (rss_url country app_id) []) limit)"

section \<open>Review analysis: \<open>analyze_reviews_openai\<close>\<close>

definition blank_line :: string where
  "blank_line = [CHR 0x0A, CHR 0x0A]"

text \<open>One element of the list comprehension at lines 48 to 51, for the pair
  \<open>(i, r)\<close> of \<open>enumerate(reviews)\<close>.\<close>

definition review_line :: "nat \<Rightarrow> review \<Rightarrow> string" where
  "review_line i r =
     str_int (int i + 1) @ ''. ['' @ str_int (rating r) @ ''/5] '' @ py_str (title r)
       @ '' - '' @ py_str (content r)"

definition transcript :: "review list \<Rightarrow> string" where
  "transcript reviews =
     py_join blank_line (map (\<lambda>(i, r). review_line i r) (List.enumerate 0 reviews))"

definition system_message :: chat_message where
  "system_message = Message ''system'' ''You are a product growth analyst.''"

definition theme_request :: "string \<Rightarrow> chat_request" where
  "theme_request text =
     \<lparr>model = ''gpt-4'',
      messages =
        [system_message,
         Message ''user''
           (''Summarize the following user reviews:'' @ blank_line @ text @ blank_line
            @ ''Extract 3 key positive themes, 3 key pain points, and an overall sentiment (positive/negative/mixed).'')],
      temperature = 0,
      max_tokens = 400\<rparr>"

definition improve_request :: "string \<Rightarrow> chat_request" where
  "improve_request text =
     \<lparr>model = ''gpt-4'',
      messages =
        [system_message,
         Message ''user''
           (''Based on these user reviews, list 3 specific, high-impact feature or UX improvements the product team should prioritize:''
            @ blank_line @ text @ blank_line
            @ ''Provide each improvement as a short actionable bullet.'')],
      temperature = 0,
      max_tokens = 200\<rparr>"

text \<open>\<open>resp.choices[0].message.content.strip()\<close>.\<close>

fun first_choice_text :: "chat_outcome \<Rightarrow> py_error + string" where
  "first_choice_text ChatFault = Inl APIError"
| "first_choice_text (ChatChoices []) = Inl IndexError"
| "first_choice_text (ChatChoices (None # cs)) = Inl AttributeError"
| "first_choice_text (ChatChoices (Some c # cs)) = Inr (py_strip c)"

definition analyze_reviews_openai ::
  "world \<Rightarrow> review list \<Rightarrow> event list \<times> (py_error + (string \<times> string))" where
  "analyze_reviews_openai w reviews =
     (let text = transcript reviews;
          theme = theme_request text
      in case first_choice_text (chat_create w theme) of
           Inl e \<Rightarrow> ([ChatCreate theme], Inl e)
         | Inr summary \<Rightarrow>
             (let improve = improve_request text
              in ([ChatCreate theme, ChatCreate improve],
                  then_do (first_choice_text (chat_create w improve)) (\<lambda>improvements.
                    Inr (summary, improvements)))))"

section \<open>The button handler (lines 96 to 111)\<close>

text \<open>\<open>if not app_id\<close>, for an identifier that is \<open>None\<close> or a \<open>str\<close>.\<close>

definition id_truthy :: "string option \<Rightarrow> bool" where
  "id_truthy app_id = (case app_id of None \<Rightarrow> False | Some s \<Rightarrow> s \<noteq> [])"

definition no_app_message :: "string \<Rightarrow> string" where
  "no_app_message app_name =
     ''No app found matching '' @ [CHR 0x27] @ app_name @ [CHR 0x27]
       @ ''. Please check the name and try again.''"

definition found_message :: "json \<Rightarrow> string \<Rightarrow> string" where
  "found_message found_name app_id =
     ''Found '' @ py_str found_name @ '' (ID: '' @ app_id @ '')''"

definition fetched_message :: "review list \<Rightarrow> string" where
  "fetched_message reviews = ''Fetched '' @ str_int (int (length reviews)) @ '' reviews.''"

text \<open>Lines 103 to 111, once the lookup has given a usable identifier.\<close>

definition fetch_and_analyze :: "world \<Rightarrow> string \<Rightarrow> int \<Rightarrow> event list \<times> (py_error + unit)" where
  "fetch_and_analyze w app_id limit =
     (let (ev_fetch, fetched) = fetch_reviews w app_id ''us'' limit;
          evs = Spinner ''Fetching reviews...'' # ev_fetch
      in case fetched of
           Inl e \<Rightarrow> (evs, Inl e)
         | Inr reviews \<Rightarrow>
             (let (ev_an, analysed) = analyze_reviews_openai w reviews;
                  evs' = evs @ [StWrite (fetched_message reviews),
                                Spinner ''Analyzing with OpenAI...''] @ ev_an
              in case analysed of
                   Inl e \<Rightarrow> (evs', Inl e)
                 | Inr (summary, improvements) \<Rightarrow>
                     (evs' @ [StSubheader ThemesHeading, StMarkdown summary,
                              StSubheader ImprovementsHeading, StMarkdown improvements],
                      Inr ())))"

definition on_analyze_click :: "world \<Rightarrow> string \<Rightarrow> int \<Rightarrow> event list \<times> (py_error + unit)" where
  "on_analyze_click w app_name limit =
     (let (ev_search, found) = search_app w app_name;
          evs = Spinner ''Searching for app...'' # ev_search
      in case found of
           Inl e \<Rightarrow> (evs, Inl e)
         | Inr (app_id, found_name) \<Rightarrow>
             if \<not> id_truthy app_id then (evs @ [StError (no_app_message app_name)], Inr ())
             else
               (let (ev_rest, r) = fetch_and_analyze w (the app_id) limit
                in (evs @ [StSuccess (found_message found_name (the app_id))] @ ev_rest, r)))"

section \<open>Shapes of feed entries\<close>

text \<open>\<open>has_label d k\<close>: in the entry with items \<open>d\<close>, key \<open>k\<close> holds an object that
  has a \<open>label\<close>, so that \<open>e[k]["label"]\<close> is defined.\<close>

definition has_label :: "(string \<times> json) list \<Rightarrow> string \<Rightarrow> bool" where
  "has_label d k =
     (case map_of d k of Some (JObj t) \<Rightarrow> map_of t ''label'' \<noteq> None | _ \<Rightarrow> False)"

section \<open>The transcript as the specification words it\<close>

text \<open>
  The specification describes the transcript as the reviews enumerated from 1 in the
  order received, one line \<open>{index}. [{rating}/5] {title} - {content}\<close> each,
  consecutive lines separated by a blank line, that is by two newline characters.
  \<open>spec_transcript\<close> is that description, over triples of rating, title text and
  content text; \<open>review_texts\<close> reads the triple off a review record.
\<close>

fun spec_lines :: "nat \<Rightarrow> (int \<times> string \<times> string) list \<Rightarrow> string list" where
  "spec_lines idx [] = []"
| "spec_lines idx ((stars, headline, body_text) # rest) =
     (str_int (int idx) @ ''. ['' @ str_int stars @ ''/5] '' @ headline @ '' - '' @ body_text)
       # spec_lines (Suc idx) rest"

fun spec_join_blank :: "string list \<Rightarrow> string" where
  "spec_join_blank [] = []"
| "spec_join_blank [l] = l"
| "spec_join_blank (l # m # ls) = l @ [CHR 0x0A, CHR 0x0A] @ spec_join_blank (m # ls)"

definition spec_transcript :: "(int \<times> string \<times> string) list \<Rightarrow> string" where
  "spec_transcript xs = spec_join_blank (spec_lines 1 xs)"

definition review_texts :: "review \<Rightarrow> int \<times> string \<times> string" where
  "review_texts r = (rating r, py_str (title r), py_str (content r))"

section \<open>Sample inputs\<close>

text \<open>A world that answers every GET with status 200 and the same JSON body, and every
  completion request with a single choice.\<close>

definition canned_world :: "json \<Rightarrow> world" where
  "canned_world body =
     \<lparr>http_get = (\<lambda>url params. Response 200 (Some body)),
      chat_create = (\<lambda>req. ChatChoices [Some ''ok''])\<rparr>"

definition labelled :: "json \<Rightarrow> json" where
  "labelled v = JObj [(''label'', v)]"

definition sample_items :: "(string \<times> json) list \<Rightarrow> (string \<times> json) list" where
  "sample_items extra =
     [(''title'', labelled (JStr ''Great'')), (''content'', labelled (JStr ''Love it''))] @ extra"

definition sample_entry :: "json \<Rightarrow> json" where
  "sample_entry stars = JObj (sample_items [(''im:rating'', labelled stars)])"

definition sample_review :: "int \<Rightarrow> review" where
  "sample_review n = \<lparr>title = JStr ''Great'', content = JStr ''Love it'', rating = n\<rparr>"

definition banner_entry :: json where
  "banner_entry = JObj [(''im:name'', labelled (JStr ''Testcraft''))]"

definition feed_of :: "json list \<Rightarrow> json" where
  "feed_of es = JObj [(''feed'', JObj [(''entry'', JArr es)])]"

definition search_body :: "json list \<Rightarrow> json" where
  "search_body results = JObj [(''resultCount'', JInt (int (length results))), (''results'', JArr results)]"

section \<open>Basic facts\<close>

lemma then_do_Inr [simp]: "then_do (Inr x) f = f x"
  by (simp add: then_do_def)

lemma then_do_Inl [simp]: "then_do (Inl e) f = Inl e"
  by (simp add: then_do_def)

lemma raise_for_status_ok: "\<not> (400 \<le> st \<and> st < 600) \<Longrightarrow> raise_for_status st = Inr ()"
  by (simp add: raise_for_status_def)

lemma slice_from1_count: "0 \<le> k \<Longrightarrow> slice_from1 xs (k + 1) = take (nat k) (drop 1 xs)"
  by (auto simp: slice_from1_def Let_def min_def nat_add_distrib)

lemma collect_reviews_length:
  "collect_reviews es acc = Inr rs \<Longrightarrow> length rs = length acc + length es"
  by (induction es arbitrary: acc) (auto split: sum.splits)

lemma collect_reviews_all_ok:
  "\<forall>e \<in> set es. \<exists>r. review_of_entry e = Inr r \<Longrightarrow>
   collect_reviews es acc = Inr (acc @ map (\<lambda>e. projr (review_of_entry e)) es)"
  by (induction es arbitrary: acc) (auto split: sum.splits)

lemma collect_reviews_fault:
  "e \<in> set es \<Longrightarrow> review_of_entry e = Inl err \<Longrightarrow> \<exists>err'. collect_reviews es acc = Inl err'"
  by (induction es arbitrary: acc) (auto split: sum.splits)

lemma fetch_feed_array:
  assumes "\<not> (400 \<le> st \<and> st < 600)"
    and "map_of body ''feed'' = Some (JObj feed)"
    and "map_of feed ''entry'' = Some (JArr es)"
    and "0 \<le> k"
  shows "fetch_reviews_result (Response st (Some (JObj body))) k
           = collect_reviews (take (nat k) (drop 1 es)) []"
  using assms
  by (simp add: fetch_reviews_result_def raise_for_status_ok response_json_def slice_from1_count)

lemma search_empty_results:
  assumes "\<not> (400 \<le> st \<and> st < 600)" and "map_of body ''results'' = Some (JArr [])"
  shows "search_app_result (Response st (Some (JObj body))) = Inr (None, JNull)"
  using assms by (simp add: search_app_result_def raise_for_status_ok response_json_def)

lemma search_first_object:
  assumes "\<not> (400 \<le> st \<and> st < 600)" and "map_of body ''results'' = Some (JArr (JObj app # rest))"
  shows "search_app_result (Response st (Some (JObj body)))
           = Inr (Some (py_str (case map_of app ''trackId'' of None \<Rightarrow> JNull | Some v \<Rightarrow> v)),
                  (case map_of app ''trackName'' of None \<Rightarrow> JNull | Some v \<Rightarrow> v))"
  using assms by (simp add: search_app_result_def raise_for_status_ok response_json_def)

lemma fetch_and_analyze_events:
  "\<exists>rest. fst (fetch_and_analyze w app_id limit)
            = Spinner ''Fetching reviews...'' # HttpGet (rss_url ''us'' app_id) [] # rest
          \<and> (\<forall>m. StError m \<notin> set rest)"
  by (auto simp: fetch_and_analyze_def fetch_reviews_def analyze_reviews_openai_def Let_def
      split: sum.splits prod.splits)

lemma has_label_getitem:
  "has_label d k \<Longrightarrow> \<exists>t v. py_getitem (JObj d) k = Inr (JObj t) \<and> py_getitem (JObj t) ''label'' = Inr v"
  by (auto simp: has_label_def split: option.splits json.splits)

lemma not_has_label_cases:
  "\<not> has_label d k \<Longrightarrow>
     py_getitem (JObj d) k = Inl KeyError
   \<or> (\<exists>t. py_getitem (JObj d) k = Inr (JObj t) \<and> py_getitem (JObj t) ''label'' = Inl KeyError)
   \<or> (\<exists>v. py_getitem (JObj d) k = Inr v \<and> py_getitem v ''label'' = Inl TypeError
           \<and> map_of d k = Some v \<and> (\<forall>t. v \<noteq> JObj t))"
  by (cases "map_of d k"; cases "the (map_of d k)") (auto simp: has_label_def split: option.splits)

lemma is_digit_digit_char: "d < 10 \<Longrightarrow> is_digit (digit_char d)"
  by (simp add: is_digit_def digit_char_def)

lemma digit_val_digit_char: "d < 10 \<Longrightarrow> digit_val (digit_char d) = int d"
  by (simp add: digit_val_def digit_char_def)

lemma str_nat_nonempty: "str_nat n \<noteq> []"
  by (subst str_nat.simps) simp

lemma str_nat_digits: "c \<in> set (str_nat n) \<Longrightarrow> is_digit c"
proof (induction n rule: str_nat.induct)
  case (1 n)
  show ?case
  proof (cases "n < 10")
    case True
    with "1.prems" show ?thesis
      by (subst (asm) str_nat.simps) (simp add: is_digit_digit_char)
  next
    case False
    with "1.prems" have "c \<in> set (str_nat (n div 10)) \<or> c = digit_char (n mod 10)"
      by (subst (asm) str_nat.simps) auto
    then show ?thesis
      using "1.IH" [OF False] by (auto simp: is_digit_digit_char)
  qed
qed

lemma is_digit_not_special:
  "is_digit c \<Longrightarrow> c \<noteq> CHR ''_'' \<and> c \<noteq> CHR ''-'' \<and> c \<noteq> CHR ''+'' \<and> \<not> int_isspace c"
  by (auto simp: is_digit_def int_isspace_def Let_def)

lemma digits_ok_all_digits: "xs \<noteq> [] \<Longrightarrow> \<forall>c \<in> set xs. is_digit c \<Longrightarrow> digits_ok xs"
  by (induction xs rule: digits_ok.induct) (auto dest: is_digit_not_special)

lemma digits_ok_chars: "digits_ok xs \<Longrightarrow> c \<in> set xs \<Longrightarrow> is_digit c \<or> c = CHR ''_''"
  by (induction xs rule: digits_ok.induct) (auto split: if_splits)

lemma dec_value_snoc:
  "c \<noteq> CHR ''_'' \<Longrightarrow> dec_value (xs @ [c]) = 10 * dec_value xs + digit_val c"
  by (simp add: dec_value_def)

lemma dec_value_str_nat: "dec_value (str_nat n) = int n"
proof (induction n rule: str_nat.induct)
  case (1 n)
  show ?case
  proof (cases "n < 10")
    case True
    then have "str_nat n = [digit_char n]" by (subst str_nat.simps) simp
    with True show ?thesis
      using is_digit_not_special [OF is_digit_digit_char [OF True]]
      by (simp add: dec_value_def digit_val_digit_char)
  next
    case False
    have d: "n mod 10 < 10" by simp
    have ar: "10 * int (n div 10) + int (n mod 10) = int n" by presburger
    from False have "str_nat n = str_nat (n div 10) @ [digit_char (n mod 10)]"
      by (subst str_nat.simps) simp
    then show ?thesis
      using "1.IH" [OF False] is_digit_not_special [OF is_digit_digit_char [OF d]]
      by (simp add: dec_value_snoc digit_val_digit_char [OF d] ar)
  qed
qed

lemma strip_by_none:
  assumes "\<forall>c \<in> set xs. \<not> P c"
  shows "strip_by P xs = xs"
proof -
  have "dropWhile P ys = ys" if "\<forall>c \<in> set ys. \<not> P c" for ys
    using that by (cases ys) auto
  from this [of xs] this [of "rev xs"] assms show ?thesis
    by (simp add: strip_by_def)
qed

lemma int_of_str_str_nat: "int_of_str (str_nat n) = Inr (int n)"
proof -
  have ns: "\<forall>c \<in> set (str_nat n). \<not> int_isspace c"
    using str_nat_digits is_digit_not_special by blast
  obtain c r where cr: "str_nat n = c # r"
    using str_nat_nonempty [of n] by (cases "str_nat n") auto
  then have "is_digit c" using str_nat_digits [of c n] by simp
  then have c: "c \<noteq> CHR ''-''" "c \<noteq> CHR ''+''" using is_digit_not_special by auto
  have ok: "digits_ok (str_nat n)"
    using digits_ok_all_digits str_nat_nonempty str_nat_digits by blast
  have "int_of_str (c # r) = Inr (dec_value (c # r))"
    using ns ok c unfolding cr int_of_str_def strip_by_none [OF ns [unfolded cr]]
    by simp
  then show ?thesis by (simp add: cr [symmetric] dec_value_str_nat)
qed

lemma int_of_str_str_int: "int_of_str (str_int n) = Inr n"
proof (cases "n < 0")
  case False
  then show ?thesis by (simp add: str_int_def int_of_str_str_nat)
next
  case True
  let ?m = "nat (- n)"
  have ns: "\<forall>c \<in> set (CHR ''-'' # str_nat ?m). \<not> int_isspace c"
    using str_nat_digits is_digit_not_special by (auto simp: int_isspace_def)
  have ok: "digits_ok (str_nat ?m)"
    using digits_ok_all_digits str_nat_nonempty str_nat_digits by blast
  have "int_of_str (CHR ''-'' # str_nat ?m) = Inr (- dec_value (str_nat ?m))"
    using ok unfolding int_of_str_def strip_by_none [OF ns] by simp
  with True show ?thesis by (simp add: str_int_def dec_value_str_nat)
qed

lemma dropWhile_keeps: "x \<in> set xs \<Longrightarrow> \<not> P x \<Longrightarrow> x \<in> set (dropWhile P xs)"
  by (induction xs) auto

lemma strip_by_keeps: "c \<in> set s \<Longrightarrow> \<not> P c \<Longrightarrow> c \<in> set (strip_by P s)"
  by (simp add: strip_by_def dropWhile_keeps)

lemma int_of_str_bad_char:
  assumes "c \<in> set s" "\<not> is_digit c" "\<not> int_isspace c"
    and "c \<noteq> CHR ''+''" "c \<noteq> CHR ''-''" "c \<noteq> CHR ''_''"
  shows "int_of_str s = Inl ValueError"
proof -
  have t: "c \<in> set (strip_by int_isspace s)" using assms by (simp add: strip_by_keeps)
  have "\<not> digits_ok ds" if "c \<in> set ds" for ds
    using digits_ok_chars [of ds c] that assms by blast
  then show ?thesis using t assms
    by (cases "strip_by int_isspace s") (auto simp: int_of_str_def)
qed

lemma review_of_entry_labelled:
  assumes "has_label d ''title''" "has_label d ''content''"
  shows "\<exists>t c. review_of_entry (JObj d) =
           then_do (py_get (JObj d) ''im:rating'' (JObj [])) (\<lambda>r.
           then_do (py_get r ''label'' (JInt 0)) (\<lambda>rating_label.
           then_do (py_int rating_label) (\<lambda>n.
             Inr \<lparr>title = t, content = c, rating = n\<rparr>)))"
proof -
  obtain t tv where t: "py_getitem (JObj d) ''title'' = Inr (JObj t)"
      "py_getitem (JObj t) ''label'' = Inr tv"
    using has_label_getitem [OF assms(1)] by blast
  obtain c cv where c: "py_getitem (JObj d) ''content'' = Inr (JObj c)"
      "py_getitem (JObj c) ''label'' = Inr cv"
    using has_label_getitem [OF assms(2)] by blast
  have "review_of_entry (JObj d) =
           then_do (py_get (JObj d) ''im:rating'' (JObj [])) (\<lambda>r.
           then_do (py_get r ''label'' (JInt 0)) (\<lambda>rating_label.
           then_do (py_int rating_label) (\<lambda>n.
             Inr \<lparr>title = tv, content = cv, rating = n\<rparr>)))"
    unfolding review_of_entry_def t c then_do_Inr ..
  then show ?thesis by blast
qed

lemma str_int_nonempty: "str_int n \<noteq> []"
  by (simp add: str_int_def str_nat_nonempty)

lemma py_repr_nonempty: "py_repr v \<noteq> []"
  by (cases v) (simp_all add: str_int_nonempty repr_str_def Let_def)

lemma py_str_empty_iff: "py_str v = [] \<longleftrightarrow> v = JStr []"
  using py_repr_nonempty [of v] by (cases v) (simp_all add: py_str_def)

lemma py_join_spec_join: "py_join blank_line ls = spec_join_blank ls"
  by (induction ls rule: spec_join_blank.induct) (simp_all add: py_join_def blank_line_def)

lemma lines_spec_lines:
  "map (\<lambda>(i, r). review_line i r) (List.enumerate k rs) = spec_lines (Suc k) (map review_texts rs)"
  by (induction rs arbitrary: k) (simp_all add: review_line_def review_texts_def add.commute)

lemma py_join_snoc:
  "py_join sep (xs @ [x]) = (if xs = [] then x else py_join sep xs @ sep @ x)"
  by (cases xs) (simp_all add: py_join_def)

lemma transcript_snoc:
  "transcript (rs @ [r]) =
     (if rs = [] then review_line (length rs) r
      else transcript rs @ blank_line @ review_line (length rs) r)"
proof -
  let ?ls = "map (\<lambda>(i, r). review_line i r) (List.enumerate 0 rs)"
  have e: "map (\<lambda>(i, r). review_line i r) (List.enumerate 0 (rs @ [r]))
             = ?ls @ [review_line (length rs) r]"
    by (simp add: enumerate_append_eq)
  have n: "?ls = [] \<longleftrightarrow> rs = []"
    by (cases rs) simp_all
  show ?thesis
    unfolding transcript_def e py_join_snoc n ..
qed

lemma transcript_Nil: "transcript [] = []"
  by (simp add: transcript_def py_join_def)

lemma analyze_answered:
  assumes "chat_create w (theme_request (transcript reviews)) = ChatChoices (Some c1 # cs1)"
    and "chat_create w (improve_request (transcript reviews)) = ChatChoices (Some c2 # cs2)"
  shows "analyze_reviews_openai w reviews =
           ([ChatCreate (theme_request (transcript reviews)),
             ChatCreate (improve_request (transcript reviews))],
            Inr (py_strip c1, py_strip c2))"
  using assms by (simp add: analyze_reviews_openai_def Let_def)

subsection \<open>The sample inputs evaluated\<close>

lemma canned_world_get: "http_get (canned_world body) url params = Response 200 (Some body)"
  by (simp add: canned_world_def)

lemma canned_world_chat: "chat_create (canned_world body) req = ChatChoices [Some ''ok'']"
  by (simp add: canned_world_def)

lemma sample_items_labels:
  "has_label (sample_items extra) ''title''" "has_label (sample_items extra) ''content''"
  by (simp_all add: has_label_def sample_items_def labelled_def)

lemma sample_items_rating:
  "map_of (sample_items extra) ''im:rating'' = map_of extra ''im:rating''"
  by (simp add: sample_items_def)

lemma review_of_sample_entry:
  "review_of_entry (sample_entry stars) = then_do (py_int stars) (\<lambda>n. Inr (sample_review n))"
  by (simp add: review_of_entry_def sample_entry_def sample_items_def labelled_def
      sample_review_def)

lemma int_of_str_samples:
  "int_of_str ''1'' = Inr 1" "int_of_str ''2'' = Inr 2" "int_of_str ''3'' = Inr 3"
  "int_of_str ''4'' = Inr 4" "int_of_str ''5'' = Inr 5" "int_of_str ''9'' = Inr 9"
  "int_of_str ''abc'' = Inl ValueError"
  by (simp_all add: int_of_str_def strip_by_def int_isspace_def is_digit_def dec_value_def
      digit_val_def)

lemma str_int_4: "str_int 4 = ''4''"
  by code_simp

section \<open>Review fetch\<close>

text \<open>
  C1, as amended. For a feed entry whose \<open>title.label\<close> and \<open>content.label\<close> are present:
  when \<open>im:rating\<close> is absent, or is an object without \<open>label\<close>, the rating of the record
  is 0; when the label is an integer \<open>n\<close>, or the decimal numeral of \<open>n\<close> as a string,
  the rating is \<open>n\<close> as it stands (nothing clamps it to 0..5); when the label is a string
  with a character that is no digit, sign, underscore or whitespace, the entry raises
  \<open>ValueError\<close> and no rating is produced.
\<close>

theorem rating_of_entry:
  assumes "has_label d ''title''" and "has_label d ''content''"
  shows "(map_of d ''im:rating'' = None
            \<or> (\<exists>r. map_of d ''im:rating'' = Some (JObj r) \<and> map_of r ''label'' = None)
          \<longrightarrow> (\<exists>rv. review_of_entry (JObj d) = Inr rv \<and> rating rv = 0))
       \<and> (\<forall>r n. map_of d ''im:rating'' = Some (JObj r)
               \<and> (map_of r ''label'' = Some (JInt n)
                    \<or> map_of r ''label'' = Some (JStr (str_int n)) \<and> length (str_int n) \<le> 4300)
          \<longrightarrow> (\<exists>rv. review_of_entry (JObj d) = Inr rv \<and> rating rv = n))
       \<and> (\<forall>r s c. map_of d ''im:rating'' = Some (JObj r) \<and> map_of r ''label'' = Some (JStr s)
               \<and> c \<in> set s \<and> \<not> is_digit c \<and> \<not> int_isspace c
               \<and> c \<noteq> CHR ''+'' \<and> c \<noteq> CHR ''-'' \<and> c \<noteq> CHR ''_''
          \<longrightarrow> review_of_entry (JObj d) = Inl ValueError)"
proof -
  obtain t c where e: "review_of_entry (JObj d) =
           then_do (py_get (JObj d) ''im:rating'' (JObj [])) (\<lambda>r.
           then_do (py_get r ''label'' (JInt 0)) (\<lambda>rating_label.
           then_do (py_int rating_label) (\<lambda>n.
             Inr \<lparr>title = t, content = c, rating = n\<rparr>)))"
    using review_of_entry_labelled [OF assms] by blast
  have a: "\<exists>rv. review_of_entry (JObj d) = Inr rv \<and> rating rv = 0"
    if "map_of d ''im:rating'' = None
          \<or> (\<exists>r. map_of d ''im:rating'' = Some (JObj r) \<and> map_of r ''label'' = None)"
    using that by (auto simp: e)
  have b: "\<exists>rv. review_of_entry (JObj d) = Inr rv \<and> rating rv = n"
    if "map_of d ''im:rating'' = Some (JObj r)"
      and "map_of r ''label'' = Some (JInt n)
            \<or> map_of r ''label'' = Some (JStr (str_int n)) \<and> length (str_int n) \<le> 4300"
    for r n
    using that by (auto simp: e int_of_str_str_int)
  have c: "review_of_entry (JObj d) = Inl ValueError"
    if "map_of d ''im:rating'' = Some (JObj r)" "map_of r ''label'' = Some (JStr s)"
      "ch \<in> set s" "\<not> is_digit ch" "\<not> int_isspace ch"
      "ch \<noteq> CHR ''+''" "ch \<noteq> CHR ''-''" "ch \<noteq> CHR ''_''"
    for r s ch
    using that int_of_str_bad_char [of ch s] by (simp add: e)
  show ?thesis using a b c by blast
qed

theorem rating_of_entry_witness:
  "(\<exists>rv. review_of_entry (JObj (sample_items [])) = Inr rv \<and> rating rv = 0)
   \<and> (\<exists>rv. review_of_entry (JObj (sample_items [(''im:rating'', JObj [(''label'', JStr ''4'')])]))
             = Inr rv \<and> rating rv = 4)
   \<and> review_of_entry (JObj (sample_items [(''im:rating'', JObj [(''label'', JStr ''five'')])]))
        = Inl ValueError"
proof -
  note absent = rating_of_entry [OF sample_items_labels, of "[]", THEN conjunct1, rule_format]
  have a: "\<exists>rv. review_of_entry (JObj (sample_items [])) = Inr rv \<and> rating rv = 0"
    by (rule absent) (simp add: sample_items_rating)
  note numeral = rating_of_entry [OF sample_items_labels,
      of "[(''im:rating'', JObj [(''label'', JStr ''4'')])]",
      THEN conjunct2, THEN conjunct1, rule_format, of "[(''label'', JStr ''4'')]" 4]
  have b: "\<exists>rv. review_of_entry (JObj (sample_items [(''im:rating'', JObj [(''label'', JStr ''4'')])]))
             = Inr rv \<and> rating rv = 4"
    by (rule numeral) (simp add: sample_items_rating str_int_4)
  note malformed = rating_of_entry [OF sample_items_labels,
      of "[(''im:rating'', JObj [(''label'', JStr ''five'')])]",
      THEN conjunct2, THEN conjunct2, rule_format, of "[(''label'', JStr ''five'')]" "''five''" "CHR ''f''"]
  have c: "review_of_entry (JObj (sample_items [(''im:rating'', JObj [(''label'', JStr ''five'')])]))
        = Inl ValueError"
    by (rule malformed) (simp add: sample_items_rating is_digit_def int_isspace_def)
  show ?thesis using a b c by (intro conjI)
qed

text \<open>
  Two feeds of a banner and one review, fetched with the count 50. In the first the
  review's \<open>im:rating.label\<close> is \<open>"abc"\<close>: \<open>int("abc")\<close> raises and so does the
  fetch. In the second it is \<open>"9"\<close>: the record's rating is 9.
\<close>

theorem rating_counterexample:
  "snd (fetch_reviews (canned_world (feed_of [banner_entry, sample_entry (JStr ''abc'')]))
          ''123456789'' ''us'' 50) = Inl ValueError
   \<and> snd (fetch_reviews (canned_world (feed_of [banner_entry, sample_entry (JStr ''9'')]))
          ''123456789'' ''us'' 50)
       = Inr [\<lparr>title = JStr ''Great'', content = JStr ''Love it'', rating = 9\<rparr>]"
  by (simp add: fetch_reviews_def fetch_reviews_result_def canned_world_get feed_of_def
      raise_for_status_def response_json_def slice_from1_def review_of_sample_entry
      int_of_str_samples sample_review_def)

text \<open>
  C2. For a feed whose entry array has \<open>n \<ge> 1\<close> elements and a requested count \<open>k \<ge> 0\<close>,
  answered with a successful status: whenever the fetch returns, it returns exactly
  \<open>min (n - 1) k\<close> records, so never more than \<open>k\<close>; and when the entries after the zeroth
  that fall within the count are well-formed, the fetch does return, record \<open>i\<close> being
  built from entry \<open>i + 1\<close>: the zeroth entry is skipped and a short feed gives fewer
  records without a fault.
\<close>

theorem fetch_reviews_count:
  assumes "http_get w (rss_url country app_id) [] = Response st (Some (JObj body))"
    and "\<not> (400 \<le> st \<and> st < 600)"
    and "map_of body ''feed'' = Some (JObj feed)"
    and "map_of feed ''entry'' = Some (JArr es)"
    and "1 \<le> length es"
    and "0 \<le> k"
  shows "(\<forall>rs. snd (fetch_reviews w app_id country k) = Inr rs \<longrightarrow>
            length rs = min (length es - 1) (nat k) \<and> length rs \<le> nat k)
       \<and> ((\<forall>e \<in> set (take (nat k) (drop 1 es)). \<exists>r. review_of_entry e = Inr r) \<longrightarrow>
            (\<exists>rs. snd (fetch_reviews w app_id country k) = Inr rs
                  \<and> length rs = min (length es - 1) (nat k)
                  \<and> (\<forall>i < length rs. review_of_entry (es ! (i + 1)) = Inr (rs ! i))))"
proof -
  let ?sl = "take (nat k) (drop 1 es)"
  have f: "snd (fetch_reviews w app_id country k) = collect_reviews ?sl []"
    using assms by (simp add: fetch_reviews_def fetch_feed_array)
  have len: "length ?sl = min (length es - 1) (nat k)"
    by (simp add: min.commute)
  have a: "\<forall>rs. snd (fetch_reviews w app_id country k) = Inr rs \<longrightarrow>
            length rs = min (length es - 1) (nat k) \<and> length rs \<le> nat k"
    using collect_reviews_length [of ?sl "[]"] len by (auto simp: f)
  have b: "\<exists>rs. snd (fetch_reviews w app_id country k) = Inr rs
                  \<and> length rs = min (length es - 1) (nat k)
                  \<and> (\<forall>i < length rs. review_of_entry (es ! (i + 1)) = Inr (rs ! i))"
    if ok: "\<forall>e \<in> set ?sl. \<exists>r. review_of_entry e = Inr r"
  proof -
    let ?rs = "map (\<lambda>e. projr (review_of_entry e)) ?sl"
    have c: "collect_reviews ?sl [] = Inr ?rs"
      using collect_reviews_all_ok [OF ok, of "[]"] by simp
    have "review_of_entry (es ! (i + 1)) = Inr (?rs ! i)" if "i < length ?rs" for i
    proof -
      have i: "i < length ?sl" using that by simp
      then have "?sl ! i \<in> set ?sl" by (rule nth_mem)
      then obtain r where r: "review_of_entry (?sl ! i) = Inr r" using ok by blast
      have "?sl ! i = es ! (i + 1)" using i assms(5) by (simp add: nth_drop)
      then show ?thesis using r i by simp
    qed
    then show ?thesis using c len by (simp add: f)
  qed
  show ?thesis using a b by blast
qed

theorem fetch_reviews_count_witness:
  "\<exists>rs. snd (fetch_reviews
               (canned_world (feed_of [banner_entry, sample_entry (JStr ''5''),
                  sample_entry (JStr ''4''), sample_entry (JStr ''1''),
                  sample_entry (JStr ''3''), sample_entry (JStr ''5'')]))
               ''123456789'' ''us'' 50) = Inr rs
        \<and> length rs = 5"
proof -
  let ?es = "[banner_entry, sample_entry (JStr ''5''), sample_entry (JStr ''4''),
              sample_entry (JStr ''1''), sample_entry (JStr ''3''), sample_entry (JStr ''5'')]"
  have g: "http_get (canned_world (feed_of ?es)) (rss_url ''us'' ''123456789'') []
             = Response 200 (Some (JObj [(''feed'', JObj [(''entry'', JArr ?es)])]))"
    by (simp add: canned_world_get feed_of_def)
  have ok: "\<forall>e \<in> set (take (nat 50) (drop 1 ?es)). \<exists>r. review_of_entry e = Inr r"
    by (simp add: review_of_sample_entry int_of_str_samples)
  note t = fetch_reviews_count [OF g, of "[(''entry'', JArr ?es)]" ?es 50,
      THEN conjunct2, THEN mp, OF _ _ _ _ _ ok]
  have "\<exists>rs. snd (fetch_reviews (canned_world (feed_of ?es)) ''123456789'' ''us'' 50) = Inr rs
          \<and> length rs = min (length ?es - 1) (nat 50)
          \<and> (\<forall>i < length rs. review_of_entry (?es ! (i + 1)) = Inr (rs ! i))"
    by (rule t) simp_all
  then show ?thesis by auto
qed

text \<open>
  C8. A feed entry (a JSON object) in which \<open>title\<close> or \<open>content\<close> is missing, or does not
  hold an object with a \<open>label\<close>, makes the fetch raise: the entry gives no record, with
  \<open>KeyError\<close> or \<open>TypeError\<close>, and it is \<open>KeyError\<close> whenever the \<open>title\<close> and \<open>content\<close>
  values that are present are objects; a loop over entries that include it ends in a
  fault, so the entry is neither defaulted nor skipped. The rating alone is optional: an
  entry with both labels and no \<open>im:rating\<close> gives a record, with rating 0.
\<close>

theorem entry_without_title_or_content_raises:
  assumes "\<not> has_label d ''title'' \<or> \<not> has_label d ''content''"
  shows "(review_of_entry (JObj d) = Inl KeyError \<or> review_of_entry (JObj d) = Inl TypeError)
       \<and> ((\<forall>v. map_of d ''title'' = Some v \<or> map_of d ''content'' = Some v \<longrightarrow> (\<exists>t. v = JObj t))
            \<longrightarrow> review_of_entry (JObj d) = Inl KeyError)
       \<and> (\<forall>es acc. JObj d \<in> set es \<longrightarrow> (\<exists>err. collect_reviews es acc = Inl err))
       \<and> (\<forall>d'. has_label d' ''title'' \<and> has_label d' ''content'' \<and> map_of d' ''im:rating'' = None
            \<longrightarrow> (\<exists>rv. review_of_entry (JObj d') = Inr rv \<and> rating rv = 0))"
proof -
  have a: "review_of_entry (JObj d) = Inl KeyError \<or> review_of_entry (JObj d) = Inl TypeError"
  proof (cases "has_label d ''title''")
    case False
    from not_has_label_cases [OF this] show ?thesis
      by (auto simp: review_of_entry_def)
  next
    case True
    then have c: "\<not> has_label d ''content''" using assms by simp
    from has_label_getitem [OF True] not_has_label_cases [OF c] show ?thesis
      by (auto simp: review_of_entry_def)
  qed
  have b: "review_of_entry (JObj d) = Inl KeyError"
    if objs: "\<forall>v. map_of d ''title'' = Some v \<or> map_of d ''content'' = Some v \<longrightarrow> (\<exists>t. v = JObj t)"
  proof (cases "has_label d ''title''")
    case False
    from not_has_label_cases [OF this] objs show ?thesis
      by (auto simp: review_of_entry_def)
  next
    case True
    then have c: "\<not> has_label d ''content''" using assms by simp
    from has_label_getitem [OF True] not_has_label_cases [OF c] objs show ?thesis
      by (auto simp: review_of_entry_def)
  qed
  have c: "\<exists>err. collect_reviews es acc = Inl err" if "JObj d \<in> set es" for es acc
    using a that collect_reviews_fault by blast
  have r: "\<exists>rv. review_of_entry (JObj d') = Inr rv \<and> rating rv = 0"
    if "has_label d' ''title''" "has_label d' ''content''" "map_of d' ''im:rating'' = None" for d'
    using review_of_entry_labelled [OF that(1,2)] that(3) by auto
  show ?thesis using a b c r by blast
qed

theorem entry_without_title_or_content_raises_witness:
  "review_of_entry (JObj [(''title'', labelled (JStr ''Great''))]) = Inl KeyError
   \<and> (\<exists>err. collect_reviews
               [sample_entry (JStr ''5''), JObj [(''title'', labelled (JStr ''Great''))]] [] = Inl err)
   \<and> (\<exists>rv. review_of_entry (JObj (sample_items [])) = Inr rv \<and> rating rv = 0)"
proof -
  let ?d = "[(''title'', labelled (JStr ''Great''))]"
  have h: "\<not> has_label ?d ''title'' \<or> \<not> has_label ?d ''content''"
    by (simp add: has_label_def)
  note t = entry_without_title_or_content_raises [OF h]
  have a: "review_of_entry (JObj ?d) = Inl KeyError"
    by (rule t [THEN conjunct2, THEN conjunct1, rule_format]) (auto simp: labelled_def)
  have b: "\<exists>err. collect_reviews [sample_entry (JStr ''5''), JObj ?d] [] = Inl err"
    by (rule t [THEN conjunct2, THEN conjunct2, THEN conjunct1, rule_format]) simp
  have c: "\<exists>rv. review_of_entry (JObj (sample_items [])) = Inr rv \<and> rating rv = 0"
    by (rule t [THEN conjunct2, THEN conjunct2, THEN conjunct2, rule_format])
      (simp add: sample_items_labels sample_items_rating)
  show ?thesis using a b c by (intro conjI)
qed

text \<open>
  C10. When the reviews response has a successful status and its JSON body is an object
  without the key \<open>feed\<close>, or with a \<open>feed\<close> object without the key \<open>entry\<close>, the fetch
  returns the empty list; no fault is raised, whatever the requested count.
\<close>

theorem fetch_reviews_missing_feed_or_entry:
  assumes "http_get w (rss_url country app_id) [] = Response st (Some (JObj body))"
    and "\<not> (400 \<le> st \<and> st < 600)"
    and "map_of body ''feed'' = None
         \<or> (\<exists>feed. map_of body ''feed'' = Some (JObj feed) \<and> map_of feed ''entry'' = None)"
  shows "snd (fetch_reviews w app_id country limit) = Inr []"
  using assms
  by (auto simp: fetch_reviews_def fetch_reviews_result_def raise_for_status_ok
      response_json_def slice_from1_def)

theorem fetch_reviews_missing_feed_or_entry_witness:
  "snd (fetch_reviews (canned_world (JObj [(''feed'', JObj [])])) ''123456789'' ''us'' 50) = Inr []"
proof -
  have g: "http_get (canned_world (JObj [(''feed'', JObj [])])) (rss_url ''us'' ''123456789'') []
             = Response 200 (Some (JObj [(''feed'', JObj [])]))"
    by (simp add: canned_world_get)
  show ?thesis
    by (rule fetch_reviews_missing_feed_or_entry [OF g]) simp_all
qed

section \<open>Application lookup and the button handler\<close>

text \<open>
  C4. When the search response is successful and its \<open>results\<close> array is empty, the
  lookup returns \<open>(None, None)\<close> and raises nothing; the handler then shows the error
  \<open>No app found matching '{app_name}'. Please check the name and try again.\<close> and
  stops: its events are the search spinner, the search request and that error, and no
  request to the reviews feed is among them.
\<close>

theorem lookup_empty_no_fetch:
  assumes "http_get w search_url (search_params app_name) = Response st (Some (JObj body))"
    and "\<not> (400 \<le> st \<and> st < 600)"
    and "map_of body ''results'' = Some (JArr [])"
  shows "snd (search_app w app_name) = Inr (None, JNull)
       \<and> on_analyze_click w app_name limit =
           ([Spinner ''Searching for app...'',
             HttpGet ''https://itunes.apple.com/search''
               [(''term'', JStr app_name), (''entity'', JStr ''software''), (''limit'', JInt 1)],
             StError (''No app found matching '' @ [CHR 0x27] @ app_name @ [CHR 0x27]
                      @ ''. Please check the name and try again.'')], Inr ())
       \<and> (\<forall>country app_id ps.
             HttpGet (rss_url country app_id) ps \<notin> set (fst (on_analyze_click w app_name limit)))"
proof -
  have s: "search_app w app_name
             = ([HttpGet search_url (search_params app_name)], Inr (None, JNull))"
    using assms by (simp add: search_app_def search_empty_results)
  have c: "on_analyze_click w app_name limit =
           ([Spinner ''Searching for app...'',
             HttpGet search_url (search_params app_name),
             StError (no_app_message app_name)], Inr ())"
    by (simp add: on_analyze_click_def s id_truthy_def)
  have c': "on_analyze_click w app_name limit =
           ([Spinner ''Searching for app...'',
             HttpGet ''https://itunes.apple.com/search''
               [(''term'', JStr app_name), (''entity'', JStr ''software''), (''limit'', JInt 1)],
             StError (''No app found matching '' @ [CHR 0x27] @ app_name @ [CHR 0x27]
                      @ ''. Please check the name and try again.'')], Inr ())"
    unfolding c by (simp add: search_url_def search_params_def no_app_message_def)
  have u: "rss_url country app_id \<noteq> ''https://itunes.apple.com/search''" for country app_id
    by (simp add: rss_url_def)
  have n: "\<forall>country app_id ps.
             HttpGet (rss_url country app_id) ps \<notin> set (fst (on_analyze_click w app_name limit))"
    unfolding c' using u by simp
  have r: "snd (search_app w app_name) = Inr (None, JNull)"
    by (simp add: s)
  show ?thesis
    by (intro conjI r c' n)
qed

theorem lookup_empty_no_fetch_witness:
  "snd (search_app (canned_world (search_body [])) ''Testcraft'') = Inr (None, JNull)
   \<and> on_analyze_click (canned_world (search_body [])) ''Testcraft'' 50 =
       ([Spinner ''Searching for app...'',
         HttpGet ''https://itunes.apple.com/search''
           [(''term'', JStr ''Testcraft''), (''entity'', JStr ''software''), (''limit'', JInt 1)],
         StError (''No app found matching '' @ [CHR 0x27] @ ''Testcraft'' @ [CHR 0x27]
                  @ ''. Please check the name and try again.'')], Inr ())"
proof -
  have g: "http_get (canned_world (search_body [])) search_url (search_params ''Testcraft'')
             = Response 200 (Some (JObj [(''resultCount'', JInt 0), (''results'', JArr [])]))"
    by (simp add: canned_world_get search_body_def)
  from lookup_empty_no_fetch [OF g, of 50] show ?thesis by simp
qed

text \<open>
  C5, as amended. When the search response is successful and the first element of its
  \<open>results\<close> array is an object, the lookup returns as identifier the string form of
  that object's \<open>trackId\<close> (of \<open>None\<close> when the key is absent), which is empty only when
  \<open>trackId\<close> is the empty string and is the decimal numeral when \<open>trackId\<close> is an integer;
  the name returned is the object's \<open>trackName\<close>, or \<open>None\<close> when that key is absent.
\<close>

theorem lookup_first_match:
  assumes "http_get w search_url (search_params app_name) = Response st (Some (JObj body))"
    and "\<not> (400 \<le> st \<and> st < 600)"
    and "map_of body ''results'' = Some (JArr (JObj app # rest))"
  shows "\<exists>ident name. snd (search_app w app_name) = Inr (Some ident, name)
           \<and> ident = py_str (case map_of app ''trackId'' of None \<Rightarrow> JNull | Some v \<Rightarrow> v)
           \<and> (ident = [] \<longleftrightarrow> map_of app ''trackId'' = Some (JStr []))
           \<and> (\<forall>n. map_of app ''trackId'' = Some (JInt n) \<longrightarrow> ident = str_int n)
           \<and> (\<forall>v. map_of app ''trackName'' = Some v \<longrightarrow> name = v)
           \<and> (map_of app ''trackName'' = None \<longrightarrow> name = JNull)"
proof -
  define tid where "tid = (case map_of app ''trackId'' of None \<Rightarrow> JNull | Some v \<Rightarrow> v)"
  define name where "name = (case map_of app ''trackName'' of None \<Rightarrow> JNull | Some v \<Rightarrow> v)"
  have s: "snd (search_app w app_name) = Inr (Some (py_str tid), name)"
    using assms by (simp add: search_app_def search_first_object tid_def name_def)
  have e: "py_str tid = [] \<longleftrightarrow> map_of app ''trackId'' = Some (JStr [])"
    by (auto simp: py_str_empty_iff tid_def split: option.splits)
  have n: "\<forall>n. map_of app ''trackId'' = Some (JInt n) \<longrightarrow> py_str tid = str_int n"
    by (simp add: tid_def py_str_def)
  have m: "(\<forall>v. map_of app ''trackName'' = Some v \<longrightarrow> name = v)
         \<and> (map_of app ''trackName'' = None \<longrightarrow> name = JNull)"
    by (simp add: name_def)
  show ?thesis
    by (rule exI [of _ "py_str tid"], rule exI [of _ name]) (simp add: s e n m tid_def [symmetric])
qed

theorem lookup_first_match_witness:
  "\<exists>ident name.
     snd (search_app
            (canned_world (search_body
               [JObj [(''trackId'', JInt 4), (''trackName'', JStr ''Testcraft'')]]))
            ''Testcraft'') = Inr (Some ident, name)
     \<and> ident = ''4'' \<and> name = JStr ''Testcraft''"
proof -
  let ?app = "[(''trackId'', JInt 4), (''trackName'', JStr ''Testcraft'')]"
  have g: "http_get (canned_world (search_body [JObj ?app])) search_url (search_params ''Testcraft'')
             = Response 200 (Some (JObj [(''resultCount'', JInt 1), (''results'', JArr [JObj ?app])]))"
    by (simp add: canned_world_get search_body_def)
  from lookup_first_match [OF g, of ?app "[]"] show ?thesis
    by (simp add: str_int_4)
qed

text \<open>
  A search response whose only result is
  \<open>{"trackId": "", "trackName": "Testcraft"}\<close>: \<open>str("")\<close> is the empty string, and
  the lookup returns it as the identifier.
\<close>

theorem lookup_first_match_counterexample:
  "snd (search_app
          (canned_world (search_body
             [JObj [(''trackId'', JStr []), (''trackName'', JStr ''Testcraft'')]]))
          ''Testcraft'') = Inr (Some [], JStr ''Testcraft'')"
  by (simp add: search_app_def search_app_result_def canned_world_get search_body_def
      raise_for_status_def response_json_def py_str_def)

text \<open>
  C9. When the search response is successful and the first element of its \<open>results\<close>
  array is an object without \<open>trackId\<close>, the lookup returns the identifier \<open>'None'\<close>,
  a non-empty string; the handler therefore reports success and goes on to request the
  reviews feed for id \<open>None\<close>, and never shows the "No app found" error.
\<close>

theorem lookup_missing_track_id_proceeds:
  assumes "http_get w search_url (search_params app_name) = Response st (Some (JObj body))"
    and "\<not> (400 \<le> st \<and> st < 600)"
    and "map_of body ''results'' = Some (JArr (JObj app # rest))"
    and "map_of app ''trackId'' = None"
  shows "(\<exists>name. snd (search_app w app_name) = Inr (Some ''None'', name))
       \<and> (\<exists>name evs. fst (on_analyze_click w app_name limit) =
             [Spinner ''Searching for app...'',
              HttpGet search_url (search_params app_name),
              StSuccess (found_message name ''None''),
              Spinner ''Fetching reviews...'',
              HttpGet (rss_url ''us'' ''None'') []] @ evs)
       \<and> (\<forall>m. StError m \<notin> set (fst (on_analyze_click w app_name limit)))"
proof -
  define name where "name = (case map_of app ''trackName'' of None \<Rightarrow> JNull | Some v \<Rightarrow> v)"
  have s: "search_app w app_name
             = ([HttpGet search_url (search_params app_name)], Inr (Some ''None'', name))"
    using assms by (simp add: search_app_def search_first_object name_def py_str_def)
  obtain evs where f: "fst (fetch_and_analyze w ''None'' limit)
            = Spinner ''Fetching reviews...'' # HttpGet (rss_url ''us'' ''None'') [] # evs"
    and n: "\<forall>m. StError m \<notin> set evs"
    using fetch_and_analyze_events by blast
  have c: "fst (on_analyze_click w app_name limit) =
             [Spinner ''Searching for app...'',
              HttpGet search_url (search_params app_name),
              StSuccess (found_message name ''None''),
              Spinner ''Fetching reviews...'',
              HttpGet (rss_url ''us'' ''None'') []] @ evs"
    using f by (simp add: on_analyze_click_def s id_truthy_def case_prod_beta)
  show ?thesis using s c n by auto
qed

theorem lookup_missing_track_id_proceeds_witness:
  "(\<exists>name. snd (search_app (canned_world (search_body [JObj [(''trackName'', JStr ''Testcraft'')]]))
                 ''Testcraft'') = Inr (Some ''None'', name))
   \<and> (\<forall>m. StError m \<notin> set (fst (on_analyze_click
               (canned_world (search_body [JObj [(''trackName'', JStr ''Testcraft'')]]))
               ''Testcraft'' 50)))"
proof -
  let ?app = "[(''trackName'', JStr ''Testcraft'')]"
  have g: "http_get (canned_world (search_body [JObj ?app])) search_url (search_params ''Testcraft'')
             = Response 200 (Some (JObj [(''resultCount'', JInt 1), (''results'', JArr [JObj ?app])]))"
    by (simp add: canned_world_get search_body_def)
  from lookup_missing_track_id_proceeds [OF g, of ?app "[]" 50] show ?thesis by simp
qed

section \<open>Review analysis\<close>

text \<open>
  C3. The transcript built at lines 48 to 51 is the one the specification describes: the
  reviews in the order received, numbered from 1, each as
  \<open>{index}. [{rating}/5] {title} - {content}\<close> with the rating in decimal and the title
  and content as \<open>str\<close> gives them, a title or content that is a string being embedded
  unchanged. A further review adds its line at the end, under the next index, after two
  newline characters when it is not the first. For the reviews (5, Great, Love it) and
  (1, Bad, Crashes) the transcript is \<open>1. [5/5] Great - Love it\<close>, an empty line,
  \<open>2. [1/5] Bad - Crashes\<close>.
\<close>

theorem transcript_enumerates:
  "transcript rs = spec_transcript (map review_texts rs)
   \<and> review_texts \<lparr>title = JStr t, content = JStr c, rating = n\<rparr> = (n, t, c)
   \<and> transcript (rs @ [r]) =
       (if rs = [] then [] else transcript rs @ [CHR 0x0A, CHR 0x0A])
       @ str_int (int (length rs) + 1) @ ''. ['' @ str_int (rating r) @ ''/5] ''
       @ py_str (title r) @ '' - '' @ py_str (content r)
   \<and> transcript [\<lparr>title = JStr ''Great'', content = JStr ''Love it'', rating = 5\<rparr>,
                 \<lparr>title = JStr ''Bad'', content = JStr ''Crashes'', rating = 1\<rparr>]
       = ''1. [5/5] Great - Love it'' @ [CHR 0x0A, CHR 0x0A] @ ''2. [1/5] Bad - Crashes''"
proof -
  have a: "transcript rs = spec_transcript (map review_texts rs)"
    by (simp add: transcript_def spec_transcript_def py_join_spec_join lines_spec_lines)
  have b: "review_texts \<lparr>title = JStr t, content = JStr c, rating = n\<rparr> = (n, t, c)"
    by (simp add: review_texts_def py_str_def)
  have c: "transcript (rs @ [r]) =
       (if rs = [] then [] else transcript rs @ [CHR 0x0A, CHR 0x0A])
       @ str_int (int (length rs) + 1) @ ''. ['' @ str_int (rating r) @ ''/5] ''
       @ py_str (title r) @ '' - '' @ py_str (content r)"
    by (simp add: transcript_snoc review_line_def blank_line_def)
  have d: "transcript [\<lparr>title = JStr ''Great'', content = JStr ''Love it'', rating = 5\<rparr>,
                 \<lparr>title = JStr ''Bad'', content = JStr ''Crashes'', rating = 1\<rparr>]
       = ''1. [5/5] Great - Love it'' @ [CHR 0x0A, CHR 0x0A] @ ''2. [1/5] Bad - Crashes''"
    by code_simp
  show ?thesis
    by (intro conjI a b c d)
qed

text \<open>
  C6. When the completion API answers every request with a choice that has text, the
  analysis of any review list, the empty one included, returns a pair of texts after
  issuing both completion requests; for the empty list the transcript is the empty
  string, and both requests are still issued, built from it.
\<close>

theorem analysis_accepts_any_list:
  assumes "\<forall>req. \<exists>c cs. chat_create w req = ChatChoices (Some c # cs)"
  shows "(\<exists>r1 r2 summary improvements.
            analyze_reviews_openai w reviews = ([ChatCreate r1, ChatCreate r2], Inr (summary, improvements)))
       \<and> transcript [] = []
       \<and> (\<exists>summary improvements.
            analyze_reviews_openai w [] =
              ([ChatCreate (theme_request []), ChatCreate (improve_request [])],
               Inr (summary, improvements)))"
proof -
  have a: "\<exists>summary improvements. analyze_reviews_openai w rs =
           ([ChatCreate (theme_request (transcript rs)),
             ChatCreate (improve_request (transcript rs))],
            Inr (summary, improvements))" for rs
  proof -
    obtain c1 cs1 where 1: "chat_create w (theme_request (transcript rs)) = ChatChoices (Some c1 # cs1)"
      using assms by blast
    obtain c2 cs2 where 2: "chat_create w (improve_request (transcript rs)) = ChatChoices (Some c2 # cs2)"
      using assms by blast
    show ?thesis using analyze_answered [OF 1 2] by blast
  qed
  from a [of reviews] a [of "[]"] show ?thesis
    by (auto simp: transcript_Nil)
qed

theorem analysis_accepts_any_list_witness:
  "\<exists>summary improvements.
     analyze_reviews_openai (canned_world JNull) [] =
       ([ChatCreate (theme_request []), ChatCreate (improve_request [])],
        Inr (summary, improvements))"
proof -
  have h: "\<forall>req. \<exists>c cs. chat_create (canned_world JNull) req = ChatChoices (Some c # cs)"
    by (simp add: canned_world_chat)
  from analysis_accepts_any_list [OF h, of "[]"] show ?thesis by simp
qed

text \<open>
  C7. The completion requests of an analysis run are the theme request and then the
  improvement request, and no other: both go to the model \<open>gpt-4\<close> with the system
  message "You are a product growth analyst." and temperature 0, the first with
  \<open>max_tokens\<close> 400, the second with \<open>max_tokens\<close> 200, and the user message of each
  embeds the same transcript between blank lines. Exactly these two are issued, in this
  order, in every run whose first request is answered with a choice that has text, and
  so in every run that returns; a run that the first request's fault ends has issued
  that request alone.
\<close>

theorem analysis_issues_two_requests:
  "theme_request (transcript reviews) =
     \<lparr>model = ''gpt-4'',
      messages =
        [Message ''system'' ''You are a product growth analyst.'',
         Message ''user''
           (''Summarize the following user reviews:'' @ blank_line
            @ transcript reviews @ blank_line
            @ ''Extract 3 key positive themes, 3 key pain points, and an overall sentiment (positive/negative/mixed).'')],
      temperature = 0,
      max_tokens = 400\<rparr>
   \<and> improve_request (transcript reviews) =
     \<lparr>model = ''gpt-4'',
      messages =
        [Message ''system'' ''You are a product growth analyst.'',
         Message ''user''
           (''Based on these user reviews, list 3 specific, high-impact feature or UX improvements the product team should prioritize:''
            @ blank_line @ transcript reviews @ blank_line
            @ ''Provide each improvement as a short actionable bullet.'')],
      temperature = 0,
      max_tokens = 200\<rparr>
   \<and> (fst (analyze_reviews_openai w reviews) =
          [ChatCreate (theme_request (transcript reviews)),
           ChatCreate (improve_request (transcript reviews))]
        \<or> fst (analyze_reviews_openai w reviews) = [ChatCreate (theme_request (transcript reviews))])
   \<and> ((\<exists>summary. first_choice_text (chat_create w (theme_request (transcript reviews))) = Inr summary)
        \<longrightarrow> fst (analyze_reviews_openai w reviews) =
              [ChatCreate (theme_request (transcript reviews)),
               ChatCreate (improve_request (transcript reviews))])
   \<and> ((\<exists>result. snd (analyze_reviews_openai w reviews) = Inr result)
        \<longrightarrow> fst (analyze_reviews_openai w reviews) =
              [ChatCreate (theme_request (transcript reviews)),
               ChatCreate (improve_request (transcript reviews))])"
proof -
  let ?events = "fst (analyze_reviews_openai w reviews)"
  let ?theme = "theme_request (transcript reviews)"
  let ?improve = "improve_request (transcript reviews)"
  have faulted: "?events = [ChatCreate ?theme] \<and> snd (analyze_reviews_openai w reviews) = Inl e"
    if "first_choice_text (chat_create w ?theme) = Inl e" for e
    using that by (simp add: analyze_reviews_openai_def Let_def)
  have answered: "?events = [ChatCreate ?theme, ChatCreate ?improve]"
    if "first_choice_text (chat_create w ?theme) = Inr summary" for summary
    using that by (simp add: analyze_reviews_openai_def Let_def)
  have either: "?events = [ChatCreate ?theme, ChatCreate ?improve] \<or> ?events = [ChatCreate ?theme]"
    using faulted answered by (cases "first_choice_text (chat_create w ?theme)") simp_all
  have returned: "?events = [ChatCreate ?theme, ChatCreate ?improve]"
    if "snd (analyze_reviews_openai w reviews) = Inr result" for result
    using that faulted answered by (cases "first_choice_text (chat_create w ?theme)") simp_all
  have theme: "?theme =
     \<lparr>model = ''gpt-4'',
      messages =
        [Message ''system'' ''You are a product growth analyst.'',
         Message ''user''
           (''Summarize the following user reviews:'' @ blank_line
            @ transcript reviews @ blank_line
            @ ''Extract 3 key positive themes, 3 key pain points, and an overall sentiment (positive/negative/mixed).'')],
      temperature = 0,
      max_tokens = 400\<rparr>"
    by (simp add: theme_request_def system_message_def)
  have improve: "?improve =
     \<lparr>model = ''gpt-4'',
      messages =
        [Message ''system'' ''You are a product growth analyst.'',
         Message ''user''
           (''Based on these user reviews, list 3 specific, high-impact feature or UX improvements the product team should prioritize:''
            @ blank_line @ transcript reviews @ blank_line
            @ ''Provide each improvement as a short actionable bullet.'')],
      temperature = 0,
      max_tokens = 200\<rparr>"
    by (simp add: improve_request_def system_message_def)
  have answered': "(\<exists>summary. first_choice_text (chat_create w ?theme) = Inr summary)
        \<longrightarrow> ?events = [ChatCreate ?theme, ChatCreate ?improve]"
    using answered by blast
  have returned': "(\<exists>result. snd (analyze_reviews_openai w reviews) = Inr result)
        \<longrightarrow> ?events = [ChatCreate ?theme, ChatCreate ?improve]"
    using returned by blast
  show ?thesis
    by (intro conjI theme improve either answered' returned')
qed

theorem analysis_issues_two_requests_witness:
  "fst (analyze_reviews_openai (canned_world JNull) [sample_review 5]) =
     [ChatCreate (theme_request (transcript [sample_review 5])),
      ChatCreate (improve_request (transcript [sample_review 5]))]
   \<and> max_tokens (theme_request (transcript [sample_review 5])) = 400
   \<and> max_tokens (improve_request (transcript [sample_review 5])) = 200
   \<and> temperature (theme_request (transcript [sample_review 5])) = 0
   \<and> temperature (improve_request (transcript [sample_review 5])) = 0"
proof -
  have h: "\<exists>summary. first_choice_text (chat_create (canned_world JNull)
             (theme_request (transcript [sample_review 5]))) = Inr summary"
    by (simp add: canned_world_chat)
  note t = analysis_issues_two_requests [of "[sample_review 5]" "canned_world JNull"]
  have two: "fst (analyze_reviews_openai (canned_world JNull) [sample_review 5]) =
     [ChatCreate (theme_request (transcript [sample_review 5])),
      ChatCreate (improve_request (transcript [sample_review 5]))]"
    by (rule t [THEN conjunct2, THEN conjunct2, THEN conjunct2, THEN conjunct1, THEN mp, OF h])
  have "max_tokens (theme_request (transcript [sample_review 5])) = 400"
    "temperature (theme_request (transcript [sample_review 5])) = 0"
    by (simp_all add: t [THEN conjunct1])
  moreover have "max_tokens (improve_request (transcript [sample_review 5])) = 200"
    "temperature (improve_request (transcript [sample_review 5])) = 0"
    by (simp_all add: t [THEN conjunct2, THEN conjunct1])
  ultimately show ?thesis using two by simp
qed

end
